theory Spec2Isabelle
  imports Main "HOL-Library.Sublist"
begin

section \<open>The collaborators of lib/checkPrereqs.js\<close>

text \<open>
  The object returned by \<^verbatim>\<open>child_process.spawnSync\<close>, restricted to the three
  fields the module reads. A field that is \<^verbatim>\<open>null\<close> in JavaScript is \<open>None\<close>:
  \<open>status\<close> is null when the child could not be launched or was killed by a signal, and
  the two captured streams are null when the child could not be launched. A captured
  buffer is the string its \<^verbatim>\<open>toString()\<close> yields.
\<close>

record spawnSyncReturns =
  status :: "int option"
  stdout :: "string option"
  stderr :: "string option"

datatype fs_error = ENOENT | EACCES | EISDIR | ENOTDIR | EIO

datatype js_error = TypeError

text \<open>What a promise of the module can be settled with.\<close>

datatype js_value = Undefined | ErrorObject js_error

datatype promise = Resolved js_value | Rejected js_value

text \<open>
  The observable actions of the module, in the order they happen: a child process is
  launched, a file or a directory is read, a line is printed by \<^verbatim>\<open>console.log\<close>,
  the host process is halted by \<^verbatim>\<open>process.exit\<close>.
\<close>

datatype event =
  Launch string "string list"
| ReadFile string
| ReadDir string
| Print string
| Terminate int

text \<open>
  How a call ends: it returns a value to its caller, it halts the host process with an
  exit code (control does not come back), or it throws.
\<close>

datatype 'a outcome = Returns 'a | Exits int | Throws js_error

text \<open>
  The environment a checker runs against. \<open>child\<close> is the answer of the process launcher
  for a program and its arguments, \<open>files\<close> the answer of a synchronous whole-file read,
  \<open>dirs\<close> the answer the directory listing hands to its callback, \<open>os_homedir\<close> the
  home directory. \<open>failure\<close>, \<open>warn\<close> and \<open>varFmt\<close> are the three formatters of
  lib/colorScheme, which the module imports: pure functions from strings to strings.

  Both collaborators validate their argument before they do anything. The launcher
  refuses an empty program name with a TypeError in every version of Node, and a program
  name with a NUL byte in the versions that check for it; \<open>nul_checked\<close> says whether the
  host's Node does. The directory listing refuses a path with a NUL byte by throwing a
  TypeError synchronously. \<open>child\<close> and \<open>dirs\<close> are the answers to the calls that pass
  the validation.
\<close>

record env =
  child :: "string \<Rightarrow> string list \<Rightarrow> spawnSyncReturns"
  nul_checked :: bool
  files :: "string \<Rightarrow> fs_error + string"
  dirs :: "string \<Rightarrow> fs_error + string list"
  os_homedir :: string
  failure :: "string \<Rightarrow> string"
  warn :: "string \<Rightarrow> string"
  varFmt :: "string \<Rightarrow> string"

text \<open>
  Every operation takes the history \<open>h\<close> of the actions of the host process so far and
  returns it extended. A call that throws (\<open>Inl\<close>) did not get as far as the action.
\<close>

definition refused :: "env \<Rightarrow> string \<Rightarrow> bool" where
  "refused e command = (command = [] \<or> (nul_checked e \<and> CHR 0x00 \<in> set command))"

definition spawn ::
  "env \<Rightarrow> string \<Rightarrow> string list \<Rightarrow> event list \<Rightarrow> (js_error + spawnSyncReturns) \<times> event list" where
  "spawn e command args h =
     (if refused e command then (Inl TypeError, h)
      else (Inr (child e command args), h @ [Launch command args]))"

definition readFileSync :: "env \<Rightarrow> string \<Rightarrow> event list \<Rightarrow> (fs_error + string) \<times> event list" where
  "readFileSync e file h = (files e file, h @ [ReadFile file])"

definition readdir ::
  "env \<Rightarrow> string \<Rightarrow> event list \<Rightarrow> (js_error + (fs_error + string list)) \<times> event list" where
  "readdir e dirName h =
     (if CHR 0x00 \<in> set dirName then (Inl TypeError, h)
      else (Inr (dirs e dirName), h @ [ReadDir dirName]))"

definition console_log :: "string \<Rightarrow> event list \<Rightarrow> event list" where
  "console_log line h = h @ [Print line]"

definition process_exit :: "int \<Rightarrow> event list \<Rightarrow> event list \<times> 'a outcome" where
  "process_exit code h = (h @ [Terminate code], Exits code)"

text \<open>\<^verbatim>\<open>s.includes(p)\<close>: \<open>p\<close> occurs in \<open>s\<close> as a contiguous substring.\<close>

fun includes_js :: "string \<Rightarrow> string \<Rightarrow> bool" where
  "includes_js [] p = (p = [])"
| "includes_js (c # cs) p = (prefix p (c # cs) \<or> includes_js cs p)"

text \<open>
  \<^verbatim>\<open>'' + array\<close> for an array of strings: \<^verbatim>\<open>Array.prototype.toString\<close>, which
  joins the elements with a comma.
\<close>

fun toString :: "string list \<Rightarrow> string" where
  "toString [] = []"
| "toString [x] = x"
| "toString (x # y # ys) = x @ '','' @ toString (y # ys)"

text \<open>\<^verbatim>\<open>b.toString()\<close> on a captured stream: a TypeError when the stream is null.\<close>

definition buffer_toString :: "string option \<Rightarrow> js_error + string" where
  "buffer_toString b = (case b of None \<Rightarrow> Inl TypeError | Some s \<Rightarrow> Inr s)"

section \<open>The checkers\<close>

text \<open>
  The \<^verbatim>\<open>for (let command in commandsToCheck)\<close> loop of \<^verbatim>\<open>checkInstalled\<close>: the
  indices of the array in ascending order, \<^verbatim>\<open>missingPrereqs.push\<close> appending at the end.
  The call of the launcher is not inside a \<^verbatim>\<open>try\<close>: when it throws, the loop is left
  and the error goes to the caller of \<^verbatim>\<open>checkInstalled\<close>.
\<close>

fun checkInstalled_loop ::
  "env \<Rightarrow> string list \<Rightarrow> string list \<Rightarrow> event list \<Rightarrow> (js_error + string list) \<times> event list" where
  "checkInstalled_loop e [] missingPrereqs h = (Inr missingPrereqs, h)"
| "checkInstalled_loop e (command # rest) missingPrereqs h =
     (case spawn e command [''--version''] h of
        (Inl err, h') \<Rightarrow> (Inl err, h')
      | (Inr r, h') \<Rightarrow>
          if status r \<noteq> Some 0
          then checkInstalled_loop e rest (missingPrereqs @ [command]) h'
          else checkInstalled_loop e rest missingPrereqs h')"

definition checkInstalled :: "env \<Rightarrow> string list \<Rightarrow> event list \<Rightarrow> event list \<times> unit outcome" where
  "checkInstalled e commandsToCheck h =
     (if length commandsToCheck = 0 then (h, Returns ())
      else
        case checkInstalled_loop e commandsToCheck [] h of
          (Inl err, h') \<Rightarrow> (h', Throws err)
        | (Inr missingPrereqs, h') \<Rightarrow>
            if length missingPrereqs \<noteq> 0 then
              let h'' = console_log
                    (failure e (''Required pre-requisites not installed: '' @ toString missingPrereqs
                       @ ''. Exiting...'')) h'
              in process_exit 1 h''
            else (h', Returns ()))"

text \<open>
  \<^verbatim>\<open>a || b\<close> evaluates \<open>b\<close> only when \<open>a\<close> is false, so the stream of
  \<^verbatim>\<open>checkGcloudProject\<close> is dereferenced only when the status is 0.
\<close>

definition checkGcloudProject :: "env \<Rightarrow> event list \<Rightarrow> event list \<times> unit outcome" where
  "checkGcloudProject e h =
     (case spawn e ''gcloud'' [''config'', ''get-value'', ''project''] h of
        (Inl err, h1) \<Rightarrow> (h1, Throws err)
      | (Inr checkGcloud, h1) \<Rightarrow>
          let cond = (if status checkGcloud \<noteq> Some 0 then Inr True
                      else case buffer_toString (stderr checkGcloud) of
                             Inl err \<Rightarrow> Inl err
                           | Inr s \<Rightarrow> Inr (includes_js s ''(unset)''))
          in case cond of
               Inl err \<Rightarrow> (h1, Throws err)
             | Inr True \<Rightarrow>
                 let h2 = console_log (failure e ''The gcloud command does not appear to be initialized fully: no project is configured. Exiting...'') h1;
                     h3 = console_log (warn e ''To fully initialize gcloud: gcloud init'') h2;
                     h4 = console_log (warn e ''To set a project: gcloud config set project [NAME]'') h3
                 in process_exit 1 h4
             | Inr False \<Rightarrow> (h1, Returns ()))"

text \<open>
  \<^verbatim>\<open>checkGitLocalAuth\<close>: the read sits in a \<^verbatim>\<open>try\<close> whose handler prints and halts;
  the message is written out twice in the source, once per failing branch.
\<close>

definition checkGitLocalAuth :: "env \<Rightarrow> event list \<Rightarrow> event list \<times> unit outcome" where
  "checkGitLocalAuth e h =
     (let homedir = os_homedir e;
          (r, h1) = readFileSync e (homedir @ ''/.gitcookies'') h
      in case r of
           Inl err \<Rightarrow>
             let h2 = console_log (failure e ''Authentication to Cloud Source Repositories through git is not configured. Please configure it as defined in: https://cloud.google.com/source-repositories/docs/authentication#manually-generated-credentials'') h1
             in process_exit 1 h2
         | Inr gitCookies \<Rightarrow>
             if \<not> includes_js gitCookies ''source.developers.google.com'' then
               let h2 = console_log (failure e ''Authentication to Cloud Source Repositories through git is not configured. Please configure it as defined in: https://cloud.google.com/source-repositories/docs/authentication#manually-generated-credentials'') h1
               in process_exit 1 h2
             else (h1, Returns ()))"

definition checkGitConfig :: "env \<Rightarrow> event list \<Rightarrow> event list \<times> unit outcome" where
  "checkGitConfig e h =
     (case spawn e ''git'' [''config'', ''--list''] h of
        (Inl err, h1) \<Rightarrow> (h1, Throws err)
      | (Inr checkGitConfig, h1) \<Rightarrow>
          let cond = (if status checkGitConfig \<noteq> Some 0 then Inr True
                      else case buffer_toString (stdout checkGitConfig) of
                             Inl err \<Rightarrow> Inl err
                           | Inr s \<Rightarrow>
                               if \<not> includes_js s ''email'' then Inr True
                               else Inr (\<not> includes_js s ''name''))
          in case cond of
               Inl err \<Rightarrow> (h1, Throws err)
             | Inr True \<Rightarrow>
                 let h2 = console_log (failure e ''The git command does not appear to be initialized fully with a configured email and name. Exiting...'') h1;
                     h3 = console_log (warn e ''To fully initialize git, configure name and email with:'') h2;
                     h4 = console_log (warn e (CHR 0x09 # varFmt e (''git config --global user.email '' @ [CHR 0x22] @ ''you@example.com'' @ [CHR 0x22]))) h3;
                     h5 = console_log (warn e (CHR 0x09 # varFmt e (''git config --global user.name '' @ [CHR 0x22] @ ''Your Name'' @ [CHR 0x22]))) h4
                 in process_exit 1 h5
             | Inr False \<Rightarrow> (h1, Returns ()))"

text \<open>
  \<^verbatim>\<open>checkFileExists\<close>: \<^verbatim>\<open>fileData\<close> starts as null and the handler of the
  \<^verbatim>\<open>try\<close> is empty, so it stays null exactly when the read throws.
\<close>

definition checkFileExists :: "env \<Rightarrow> string \<Rightarrow> event list \<Rightarrow> event list \<times> bool outcome" where
  "checkFileExists e file h =
     (let (r, h1) = readFileSync e file h;
          fileData = (case r of Inl err \<Rightarrow> None | Inr buf \<Rightarrow> Some buf)
      in if fileData \<noteq> None then (h1, Returns True) else (h1, Returns False))"

text \<open>
  \<^verbatim>\<open>checkLocalDir\<close> returns a promise; the value returned here is the state the
  promise is settled in. In the callback of the listing, \<^verbatim>\<open>resolve()\<close> and
  \<^verbatim>\<open>reject()\<close> are called without an argument, so the promise is settled with
  \<^verbatim>\<open>undefined\<close>. \<^verbatim>\<open>fs.readdir\<close> is called in the executor of the promise and
  not inside a \<^verbatim>\<open>try\<close>: when it throws, the promise is rejected with what was thrown.
\<close>

definition checkLocalDir :: "env \<Rightarrow> string \<Rightarrow> event list \<Rightarrow> event list \<times> promise outcome" where
  "checkLocalDir e dirName h =
     (case readdir e dirName h of
        (Inl thrown, h1) \<Rightarrow> (h1, Returns (Rejected (ErrorObject thrown)))
      | (Inr (Inl err), h1) \<Rightarrow> (h1, Returns (Rejected Undefined))
      | (Inr (Inr entries), h1) \<Rightarrow>
          if length entries = 0 then (h1, Returns (Resolved Undefined))
          else (h1, Returns (Rejected Undefined)))"

section \<open>Reading a run\<close>

text \<open>The actions a call added to the history it was started from.\<close>

definition emitted :: "event list \<Rightarrow> event list \<times> 'a \<Rightarrow> event list" where
  "emitted h run = drop (length h) (fst run)"


fun is_output :: "event \<Rightarrow> bool" where
  "is_output (Print line) = True"
| "is_output (Terminate code) = True"
| "is_output a = False"




section \<open>Example environments\<close>

definition launched :: "int \<Rightarrow> string \<Rightarrow> string \<Rightarrow> spawnSyncReturns" where
  "launched code out err = \<lparr>status = Some code, stdout = Some out, stderr = Some err\<rparr>"

definition not_launched :: spawnSyncReturns where
  "not_launched = \<lparr>status = None, stdout = None, stderr = None\<rparr>"

text \<open>
  A machine that is set up: \<^verbatim>\<open>foo\<close>, \<^verbatim>\<open>gcloud\<close> and \<^verbatim>\<open>git\<close> answer with
  status 0, \<^verbatim>\<open>bar\<close> answers its probe with status 1, nothing else is installed.
\<close>

definition ready_env :: env where
  "ready_env =
     \<lparr>child = (\<lambda>command args.
                if command = ''foo'' then launched 0 ''foo 1.0'' []
                else if command = ''gcloud'' then launched 0 ''my-project'' []
                else if command = ''git''
                  then launched 0 (''user.email=x@y.com'' @ [CHR 0x0A] @ ''user.name=X'') []
                else if command = ''bar'' then launched 1 [] ''bar: unknown option''
                else not_launched),
      nul_checked = True,
      files = (\<lambda>file. if file = ''/home/dev/.gitcookies''
                        then Inr ''source.developers.google.com,FALSE,/,TRUE,o,git-dev=1//0abc''
                        else Inl ENOENT),
      dirs = (\<lambda>dirName. if dirName = ''/tmp/empty'' then Inr []
                          else if dirName = ''/tmp/full'' then Inr [''README.md'']
                          else Inl ENOENT),
      os_homedir = ''/home/dev'',
      failure = (\<lambda>s. ''[failure] '' @ s),
      warn = (\<lambda>s. ''[warn] '' @ s),
      varFmt = (\<lambda>s. ''<'' @ s @ ''>'')\<rparr>"

text \<open>
  A machine that is half set up: \<^verbatim>\<open>gcloud\<close> exits with 0 but reports its project as
  unset, \<^verbatim>\<open>git\<close> knows an email and nothing else, the cookie file is for another host.
\<close>

definition half_env :: env where
  "half_env =
     \<lparr>child = (\<lambda>command args.
                if command = ''gcloud'' then launched 0 [] ''(unset)''
                else if command = ''git'' then launched 0 ''user.email=x@y.com'' []
                else not_launched),
      nul_checked = False,
      files = (\<lambda>file. if file = ''/home/dev/.gitcookies''
                        then Inr ''example.com,FALSE,/,TRUE,o,git-dev=1//0abc''
                        else Inl EACCES),
      dirs = (\<lambda>dirName. Inl ENOTDIR),
      os_homedir = ''/home/dev'',
      failure = (\<lambda>s. ''[failure] '' @ s),
      warn = (\<lambda>s. ''[warn] '' @ s),
      varFmt = (\<lambda>s. ''<'' @ s @ ''>'')\<rparr>"

text \<open>A bare machine: no program can be launched and no file or directory exists.\<close>

definition bare_env :: env where
  "bare_env =
     \<lparr>child = (\<lambda>command args. not_launched),
      nul_checked = True,
      files = (\<lambda>file. Inl ENOENT),
      dirs = (\<lambda>dirName. Inl ENOENT),
      os_homedir = ''/root'',
      failure = (\<lambda>s. ''[failure] '' @ s),
      warn = (\<lambda>s. ''[warn] '' @ s),
      varFmt = (\<lambda>s. ''<'' @ s @ ''>'')\<rparr>"

section \<open>Facts about the helpers\<close>

lemma includes_js_sublist: "includes_js s p \<longleftrightarrow> sublist p s"
  by (induction s) (auto simp: sublist_Cons_right)

lemma includes_js_iff: "includes_js s p \<longleftrightarrow> (\<exists>ps ss. s = ps @ p @ ss)"
  by (simp add: includes_js_sublist sublist_def)

lemma toString_names: "x \<in> set xs \<Longrightarrow> includes_js (toString xs) x"
proof (induction xs rule: toString.induct)
  case 1
  then show ?case by simp
next
  case (2 y)
  then show ?case by (simp add: includes_js_sublist)
next
  case (3 y z zs)
  show ?case
  proof (cases "x = y")
    case True
    then show ?thesis by (simp add: includes_js_sublist)
  next
    case False
    with 3 have "sublist x (toString (z # zs))"
      by (simp add: includes_js_sublist)
    then have "sublist x ((y @ '','') @ toString (z # zs) @ [])"
      by (metis append_Nil2 sublist_order.order_trans sublist_appendI)
    then show ?thesis by (simp add: includes_js_sublist)
  qed
qed

text \<open>The names the launcher refuses: always the empty one, never a plain one.\<close>

lemma refused_empty: "refused e []"
  by (simp add: refused_def)

lemma not_refused_plain: "c \<noteq> [] \<Longrightarrow> CHR 0x00 \<notin> set c \<Longrightarrow> \<not> refused e c"
  by (simp add: refused_def)

lemma not_refused_gcloud [simp]: "\<not> refused e ''gcloud''"
  by (simp add: refused_def)

lemma not_refused_git [simp]: "\<not> refused e ''git''"
  by (simp add: refused_def)

text \<open>
  The loop launches the names up to the first refused one, once each and in order. When
  no name is refused it keeps exactly the names whose probe did not exit with status 0,
  in order; otherwise it throws.
\<close>

lemma checkInstalled_loop_eq:
  "checkInstalled_loop e cs m h =
     (if list_all (\<lambda>c. \<not> refused e c) cs
      then Inr (m @ filter (\<lambda>c. status (child e c [''--version'']) \<noteq> Some 0) cs)
      else Inl TypeError,
      h @ map (\<lambda>c. Launch c [''--version'']) (takeWhile (\<lambda>c. \<not> refused e c) cs))"
  by (induction cs arbitrary: m h) (simp_all add: spawn_def)

lemma checkInstalled_run:
  "checkInstalled e cs h =
     (let missing = filter (\<lambda>c. status (child e c [''--version'']) \<noteq> Some 0) cs;
          probes = map (\<lambda>c. Launch c [''--version'']) cs
      in if \<not> list_all (\<lambda>c. \<not> refused e c) cs
         then (h @ map (\<lambda>c. Launch c [''--version'']) (takeWhile (\<lambda>c. \<not> refused e c) cs),
               Throws TypeError)
         else if missing = [] then (h @ probes, Returns ())
         else (h @ probes @
                 [Print (failure e (''Required pre-requisites not installed: ''
                            @ toString missing @ ''. Exiting...'')),
                  Terminate 1],
               Exits 1))"
proof (cases "list_all (\<lambda>c. \<not> refused e c) cs")
  case True
  then have tw: "takeWhile (\<lambda>c. \<not> refused e c) cs = cs"
    by (simp add: list_all_iff)
  show ?thesis
  proof (cases "cs = []")
    case True
    then show ?thesis by (simp add: checkInstalled_def)
  next
    case False
    with \<open>list_all (\<lambda>c. \<not> refused e c) cs\<close> show ?thesis
      by (simp add: checkInstalled_def checkInstalled_loop_eq tw console_log_def
            process_exit_def Let_def del: checkInstalled_loop.simps)
  qed
next
  case False
  then have "cs \<noteq> []" by auto
  with False show ?thesis
    by (simp add: checkInstalled_def checkInstalled_loop_eq Let_def
          del: checkInstalled_loop.simps)
qed

text \<open>Each of the other checkers, as one case distinction on what its collaborator answers.\<close>

lemma checkGcloudProject_run:
  "checkGcloudProject e h =
     (let r = child e ''gcloud'' [''config'', ''get-value'', ''project''];
          h1 = h @ [Launch ''gcloud'' [''config'', ''get-value'', ''project'']];
          fatal = (h1 @
            [Print (failure e ''The gcloud command does not appear to be initialized fully: no project is configured. Exiting...''),
             Print (warn e ''To fully initialize gcloud: gcloud init''),
             Print (warn e ''To set a project: gcloud config set project [NAME]''),
             Terminate 1], Exits 1)
      in if status r \<noteq> Some 0 then fatal
         else case stderr r of
                None \<Rightarrow> (h1, Throws TypeError)
              | Some s \<Rightarrow> if includes_js s ''(unset)'' then fatal else (h1, Returns ()))"
  by (simp add: checkGcloudProject_def spawn_def buffer_toString_def console_log_def
      process_exit_def Let_def split: option.splits)

lemma checkGitConfig_run:
  "checkGitConfig e h =
     (let r = child e ''git'' [''config'', ''--list''];
          h1 = h @ [Launch ''git'' [''config'', ''--list'']];
          fatal = (h1 @
            [Print (failure e ''The git command does not appear to be initialized fully with a configured email and name. Exiting...''),
             Print (warn e ''To fully initialize git, configure name and email with:''),
             Print (warn e (CHR 0x09 # varFmt e (''git config --global user.email '' @ [CHR 0x22] @ ''you@example.com'' @ [CHR 0x22]))),
             Print (warn e (CHR 0x09 # varFmt e (''git config --global user.name '' @ [CHR 0x22] @ ''Your Name'' @ [CHR 0x22]))),
             Terminate 1], Exits 1)
      in if status r \<noteq> Some 0 then fatal
         else case stdout r of
                None \<Rightarrow> (h1, Throws TypeError)
              | Some s \<Rightarrow> if includes_js s ''email'' \<and> includes_js s ''name''
                          then (h1, Returns ()) else fatal)"
  by (simp add: checkGitConfig_def spawn_def buffer_toString_def console_log_def
      process_exit_def Let_def split: option.splits)

lemma checkLocalDir_run:
  "checkLocalDir e dirName h =
     (if CHR 0x00 \<in> set dirName then (h, Returns (Rejected (ErrorObject TypeError)))
      else (h @ [ReadDir dirName],
            Returns (if dirs e dirName = Inr [] then Resolved Undefined else Rejected Undefined)))"
  by (simp add: checkLocalDir_def readdir_def split: sum.splits)

lemma checkGitLocalAuth_run:
  "checkGitLocalAuth e h =
     (let file = os_homedir e @ ''/.gitcookies'';
          h1 = h @ [ReadFile file];
          fatal = (h1 @
            [Print (failure e ''Authentication to Cloud Source Repositories through git is not configured. Please configure it as defined in: https://cloud.google.com/source-repositories/docs/authentication#manually-generated-credentials''),
             Terminate 1], Exits 1)
      in case files e file of
           Inl err \<Rightarrow> fatal
         | Inr s \<Rightarrow> if includes_js s ''source.developers.google.com''
                     then (h1, Returns ()) else fatal)"
  by (simp add: checkGitLocalAuth_def readFileSync_def console_log_def
      process_exit_def Let_def split: sum.splits)

lemma checkFileExists_run:
  "checkFileExists e file h = (h @ [ReadFile file], Returns (\<not> isl (files e file)))"
  by (simp add: checkFileExists_def readFileSync_def Let_def split: sum.splits)

text \<open>Failing checks print their lines and halt last.\<close>

lemma emitted_append [simp]: "emitted h (h @ es, out) = es"
  by (simp add: emitted_def)

lemma emitted_same [simp]: "emitted h (h, out) = []"
  by (simp add: emitted_def)






section \<open>The command availability checker\<close>

text \<open>
  C7. Given an empty sequence of command names, \<^verbatim>\<open>checkInstalled\<close> returns at once:
  the history is handed back as it was, so no process was launched, nothing was printed
  and the host process was not halted.
\<close>

theorem checkInstalled_empty:
  "checkInstalled e [] h = (h, Returns ()) \<and> emitted h (checkInstalled e [] h) = []"
  by (simp add: checkInstalled_def emitted_def)

theorem checkInstalled_empty_witness:
  "checkInstalled bare_env [] [] = ([], Returns ())"
  using checkInstalled_empty [of bare_env "[]"] by simp

text \<open>
  C1, as the code has it. For every sequence of command names that the launcher accepts
  (it accepts every non-empty name without a NUL byte), \<^verbatim>\<open>checkInstalled\<close> launches
  each name once, in order, with the single argument \<^verbatim>\<open>--version\<close>. The missing
  names are the names whose probe did not end with status 0 (a non-zero status, or the
  null status of a child that could not be launched), in the order met. When some name is
  missing, the probes are followed by exactly one printed line, the failure message built
  from the comma-joined missing names, in which every missing name occurs, and then by
  the halt of the host process with exit code 1. When no name is missing, the call
  returns and the probes are all that happened. When the sequence holds a name that the
  launcher refuses (it refuses the empty name), the names before the first such name are
  probed and the TypeError of the launcher then reaches the caller: nothing is printed
  and the host process is not halted.
\<close>

theorem checkInstalled_spec:
  "let missing = filter (\<lambda>c. status (child e c [''--version'']) \<noteq> Some 0) cs;
       probes = map (\<lambda>c. Launch c [''--version'']) cs;
       message = failure e (''Required pre-requisites not installed: '' @ toString missing
                   @ ''. Exiting...'');
       accepted = takeWhile (\<lambda>c. \<not> refused e c) cs
   in ((\<forall>c \<in> set cs. \<not> refused e c) \<longrightarrow>
         (missing \<noteq> [] \<longrightarrow>
            checkInstalled e cs h = (h @ probes @ [Print message, Terminate 1], Exits 1)
            \<and> (\<forall>m \<in> set missing. includes_js (toString missing) m))
         \<and> (missing = [] \<longrightarrow> checkInstalled e cs h = (h @ probes, Returns ())))
    \<and> ((\<exists>c \<in> set cs. refused e c) \<longrightarrow>
         checkInstalled e cs h
           = (h @ map (\<lambda>c. Launch c [''--version'']) accepted, Throws TypeError))
    \<and> ((\<forall>c \<in> set cs. c \<noteq> [] \<and> CHR 0x00 \<notin> set c) \<longrightarrow> (\<forall>c \<in> set cs. \<not> refused e c))
    \<and> ([] \<in> set cs \<longrightarrow> (\<exists>c \<in> set cs. refused e c))"
  unfolding Let_def
proof (intro conjI impI ballI)
  assume "\<forall>c \<in> set cs. \<not> refused e c"
    and "filter (\<lambda>c. status (child e c [''--version'']) \<noteq> Some 0) cs \<noteq> []"
  then show "checkInstalled e cs h =
    (h @ map (\<lambda>c. Launch c [''--version'']) cs @
       [Print (failure e (''Required pre-requisites not installed: ''
          @ toString (filter (\<lambda>c. status (child e c [''--version'']) \<noteq> Some 0) cs)
          @ ''. Exiting...'')), Terminate 1], Exits 1)"
    by (simp add: checkInstalled_run Let_def list_all_iff)
next
  fix m
  assume "m \<in> set (filter (\<lambda>c. status (child e c [''--version'']) \<noteq> Some 0) cs)"
  then show
    "includes_js (toString (filter (\<lambda>c. status (child e c [''--version'']) \<noteq> Some 0) cs)) m"
    by (rule toString_names)
next
  assume "\<forall>c \<in> set cs. \<not> refused e c"
    and "filter (\<lambda>c. status (child e c [''--version'']) \<noteq> Some 0) cs = []"
  then show "checkInstalled e cs h = (h @ map (\<lambda>c. Launch c [''--version'']) cs, Returns ())"
    by (simp add: checkInstalled_run Let_def list_all_iff)
next
  assume "\<exists>c \<in> set cs. refused e c"
  then show "checkInstalled e cs h =
    (h @ map (\<lambda>c. Launch c [''--version'']) (takeWhile (\<lambda>c. \<not> refused e c) cs),
     Throws TypeError)"
    by (simp add: checkInstalled_run Let_def list_all_iff)
next
  fix c
  assume "\<forall>c \<in> set cs. c \<noteq> [] \<and> CHR 0x00 \<notin> set c" and "c \<in> set cs"
  then show "\<not> refused e c"
    by (simp add: not_refused_plain)
next
  assume "[] \<in> set cs"
  then show "\<exists>c \<in> set cs. refused e c"
    using refused_empty by blast
qed

theorem checkInstalled_spec_witness:
  "checkInstalled ready_env [''foo'', ''bar''] [] =
     ([Launch ''foo'' [''--version''], Launch ''bar'' [''--version''],
       Print ''[failure] Required pre-requisites not installed: bar. Exiting...'',
       Terminate 1], Exits 1)
   \<and> checkInstalled ready_env [''foo'', ''git''] [] =
     ([Launch ''foo'' [''--version''], Launch ''git'' [''--version'']], Returns ())
   \<and> checkInstalled bare_env [''gcloud'', ''git''] [] =
     ([Launch ''gcloud'' [''--version''], Launch ''git'' [''--version''],
       Print ''[failure] Required pre-requisites not installed: gcloud,git. Exiting...'',
       Terminate 1], Exits 1)
   \<and> checkInstalled ready_env [''bar'', '''', ''foo''] [] =
     ([Launch ''bar'' [''--version'']], Throws TypeError)"
  using checkInstalled_spec [of ready_env "[''foo'', ''bar'']" "[]"]
    checkInstalled_spec [of ready_env "[''foo'', ''git'']" "[]"]
    checkInstalled_spec [of bare_env "[''gcloud'', ''git'']" "[]"]
    checkInstalled_spec [of ready_env "[''bar'', '''', ''foo'']" "[]"]
  by (simp add: ready_env_def bare_env_def launched_def not_launched_def Let_def refused_def)

text \<open>
  As written for every sequence of names, the property fails at the sequence that holds
  the empty name alone: the launcher throws before any child is launched, so the name is
  not collected, no line is printed and the host process is not halted.
\<close>

theorem checkInstalled_empty_name_counterexample:
  "checkInstalled bare_env [''''] [] = ([], Throws TypeError)
   \<and> checkInstalled bare_env [''''] [] \<noteq>
       ([Launch '''' [''--version''],
         Print ''[failure] Required pre-requisites not installed: . Exiting...'',
         Terminate 1], Exits 1)"
  by (simp add: checkInstalled_def spawn_def refused_def)

section \<open>The cloud CLI readiness checker\<close>

text \<open>
  C2. \<^verbatim>\<open>checkGcloudProject\<close> launches \<^verbatim>\<open>gcloud config get-value project\<close>. It
  passes silently (it returns, and the launch is all that happened) if and only if the
  query exited with status 0 and its captured stderr does not contain \<^verbatim>\<open>(unset)\<close>.
  In every other case it prints the failure message and the two remediation hints and
  halts the host process with exit code 1. The second half is stated for a launcher that
  hands over the captured stderr of a child that exited with status 0, as
  \<^verbatim>\<open>spawnSync\<close> with piped streams does.
\<close>

theorem checkGcloudProject_spec:
  "let r = child e ''gcloud'' [''config'', ''get-value'', ''project''];
       h1 = h @ [Launch ''gcloud'' [''config'', ''get-value'', ''project'']];
       ok = (status r = Some 0 \<and> (\<exists>s. stderr r = Some s \<and> \<not> includes_js s ''(unset)''))
   in (checkGcloudProject e h = (h1, Returns ()) \<longleftrightarrow> ok)
    \<and> ((status r = Some 0 \<longrightarrow> stderr r \<noteq> None) \<longrightarrow> \<not> ok \<longrightarrow>
        checkGcloudProject e h =
          (h1 @
           [Print (failure e ''The gcloud command does not appear to be initialized fully: no project is configured. Exiting...''),
            Print (warn e ''To fully initialize gcloud: gcloud init''),
            Print (warn e ''To set a project: gcloud config set project [NAME]''),
            Terminate 1], Exits 1))"
  by (auto simp: checkGcloudProject_run Let_def split: option.splits)

theorem checkGcloudProject_spec_witness:
  "checkGcloudProject ready_env [] =
     ([Launch ''gcloud'' [''config'', ''get-value'', ''project'']], Returns ())
   \<and> checkGcloudProject half_env [] =
     ([Launch ''gcloud'' [''config'', ''get-value'', ''project''],
       Print ''[failure] The gcloud command does not appear to be initialized fully: no project is configured. Exiting...'',
       Print ''[warn] To fully initialize gcloud: gcloud init'',
       Print ''[warn] To set a project: gcloud config set project [NAME]'',
       Terminate 1], Exits 1)
   \<and> snd (checkGcloudProject bare_env []) = Exits 1"
  using checkGcloudProject_spec [of ready_env "[]"]
    checkGcloudProject_spec [of half_env "[]"]
    checkGcloudProject_spec [of bare_env "[]"]
  by (simp add: ready_env_def half_env_def bare_env_def launched_def not_launched_def Let_def)

section \<open>The VCS identity checker\<close>

text \<open>
  C3. \<^verbatim>\<open>checkGitConfig\<close> launches \<^verbatim>\<open>git config --list\<close>. It passes silently if
  and only if the listing exited with status 0 and its captured stdout contains both
  \<^verbatim>\<open>email\<close> and \<^verbatim>\<open>name\<close>. Otherwise it prints the failure message and the
  remediation hints and halts the host process with exit code 1; as for C2, this half is
  stated for a launcher that hands over the captured stdout of a child that exited with
  status 0.
\<close>

theorem checkGitConfig_spec:
  "let r = child e ''git'' [''config'', ''--list''];
       h1 = h @ [Launch ''git'' [''config'', ''--list'']];
       ok = (status r = Some 0
             \<and> (\<exists>s. stdout r = Some s \<and> includes_js s ''email'' \<and> includes_js s ''name''))
   in (checkGitConfig e h = (h1, Returns ()) \<longleftrightarrow> ok)
    \<and> ((status r = Some 0 \<longrightarrow> stdout r \<noteq> None) \<longrightarrow> \<not> ok \<longrightarrow>
        checkGitConfig e h =
          (h1 @
           [Print (failure e ''The git command does not appear to be initialized fully with a configured email and name. Exiting...''),
            Print (warn e ''To fully initialize git, configure name and email with:''),
            Print (warn e (CHR 0x09 # varFmt e (''git config --global user.email '' @ [CHR 0x22] @ ''you@example.com'' @ [CHR 0x22]))),
            Print (warn e (CHR 0x09 # varFmt e (''git config --global user.name '' @ [CHR 0x22] @ ''Your Name'' @ [CHR 0x22]))),
            Terminate 1], Exits 1))"
  by (auto simp: checkGitConfig_run Let_def split: option.splits)

theorem checkGitConfig_spec_witness:
  "checkGitConfig ready_env [] = ([Launch ''git'' [''config'', ''--list'']], Returns ())
   \<and> snd (checkGitConfig half_env []) = Exits 1
   \<and> length (fst (checkGitConfig half_env [])) = 6
   \<and> snd (checkGitConfig bare_env []) = Exits 1"
  using checkGitConfig_spec [of ready_env "[]"]
    checkGitConfig_spec [of half_env "[]"]
    checkGitConfig_spec [of bare_env "[]"]
  by (simp add: ready_env_def half_env_def bare_env_def launched_def not_launched_def Let_def)

section \<open>The VCS remote-auth checker\<close>

text \<open>
  C4. \<^verbatim>\<open>checkGitLocalAuth\<close> reads the file \<^verbatim>\<open>.gitcookies\<close> in the home
  directory. When the content was read and contains
  \<^verbatim>\<open>source.developers.google.com\<close> it returns silently. When the read fails, whatever
  the error, or the content lacks the marker, it prints one and the same failure message,
  with the documentation link, and halts the host process with exit code 1.
\<close>

theorem checkGitLocalAuth_spec:
  "let file = os_homedir e @ ''/.gitcookies'';
       h1 = h @ [ReadFile file];
       ok = (\<exists>s. files e file = Inr s \<and> includes_js s ''source.developers.google.com'')
   in (ok \<longrightarrow> checkGitLocalAuth e h = (h1, Returns ()))
    \<and> (\<not> ok \<longrightarrow>
        checkGitLocalAuth e h =
          (h1 @
           [Print (failure e ''Authentication to Cloud Source Repositories through git is not configured. Please configure it as defined in: https://cloud.google.com/source-repositories/docs/authentication#manually-generated-credentials''),
            Terminate 1], Exits 1))"
  by (auto simp: checkGitLocalAuth_run Let_def split: sum.splits)

theorem checkGitLocalAuth_spec_witness:
  "checkGitLocalAuth ready_env [] = ([ReadFile ''/home/dev/.gitcookies''], Returns ())
   \<and> checkGitLocalAuth half_env [] =
       ([ReadFile ''/home/dev/.gitcookies'',
         Print ''[failure] Authentication to Cloud Source Repositories through git is not configured. Please configure it as defined in: https://cloud.google.com/source-repositories/docs/authentication#manually-generated-credentials'',
         Terminate 1], Exits 1)
   \<and> checkGitLocalAuth bare_env [] =
       ([ReadFile ''/root/.gitcookies'',
         Print ''[failure] Authentication to Cloud Source Repositories through git is not configured. Please configure it as defined in: https://cloud.google.com/source-repositories/docs/authentication#manually-generated-credentials'',
         Terminate 1], Exits 1)"
  using checkGitLocalAuth_spec [of ready_env "[]"]
    checkGitLocalAuth_spec [of half_env "[]"]
    checkGitLocalAuth_spec [of bare_env "[]"]
  by (simp add: ready_env_def half_env_def bare_env_def Let_def)

section \<open>The filesystem precondition checkers\<close>

text \<open>
  C5. For every path, \<^verbatim>\<open>checkFileExists\<close> returns true when the read succeeds and
  false when it fails, whatever the error. It always returns a value: it does not throw,
  it prints nothing and it does not halt the host process.
\<close>

theorem checkFileExists_spec:
  "(case files e file of
      Inr buf \<Rightarrow> checkFileExists e file h = (h @ [ReadFile file], Returns True)
    | Inl err \<Rightarrow> checkFileExists e file h = (h @ [ReadFile file], Returns False))
   \<and> (\<exists>b. snd (checkFileExists e file h) = Returns b)
   \<and> list_all (\<lambda>a. \<not> is_output a) (emitted h (checkFileExists e file h))"
  by (simp add: checkFileExists_run emitted_def split: sum.splits)

theorem checkFileExists_spec_witness:
  "checkFileExists ready_env ''/home/dev/.gitcookies'' [] =
     ([ReadFile ''/home/dev/.gitcookies''], Returns True)
   \<and> checkFileExists ready_env ''/nowhere'' [] = ([ReadFile ''/nowhere''], Returns False)
   \<and> checkFileExists half_env ''/nowhere'' [] = ([ReadFile ''/nowhere''], Returns False)"
  using checkFileExists_spec [of ready_env "''/home/dev/.gitcookies''" "[]"]
    checkFileExists_spec [of ready_env "''/nowhere''" "[]"]
    checkFileExists_spec [of half_env "''/nowhere''" "[]"]
  by (simp add: ready_env_def half_env_def)

text \<open>
  C6, as the code has it. For every path, the promise of \<^verbatim>\<open>checkLocalDir\<close> is
  resolved if and only if the listing accepts the path and succeeds with zero entries;
  in every other case it is rejected. When the rejection comes from the callback of the
  listing (one entry or more, or a failed listing, whatever the error) it carries
  \<^verbatim>\<open>undefined\<close>: nothing that tells these causes apart. When the listing refuses the
  path, one with a NUL byte, it throws inside the executor of the promise before any
  directory is read, and the promise is rejected with the TypeError that was thrown.
\<close>

theorem checkLocalDir_spec:
  "((\<exists>v. snd (checkLocalDir e dirName h) = Returns (Resolved v))
      = (CHR 0x00 \<notin> set dirName \<and> dirs e dirName = Inr []))
   \<and> (CHR 0x00 \<notin> set dirName \<and> dirs e dirName = Inr [] \<longrightarrow>
        checkLocalDir e dirName h = (h @ [ReadDir dirName], Returns (Resolved Undefined)))
   \<and> (CHR 0x00 \<notin> set dirName \<and> dirs e dirName \<noteq> Inr [] \<longrightarrow>
        checkLocalDir e dirName h = (h @ [ReadDir dirName], Returns (Rejected Undefined)))
   \<and> (CHR 0x00 \<in> set dirName \<longrightarrow>
        checkLocalDir e dirName h = (h, Returns (Rejected (ErrorObject TypeError))))"
  by (simp add: checkLocalDir_run)

theorem checkLocalDir_spec_witness:
  "checkLocalDir ready_env ''/tmp/empty'' [] = ([ReadDir ''/tmp/empty''], Returns (Resolved Undefined))
   \<and> checkLocalDir ready_env ''/tmp/full'' [] = ([ReadDir ''/tmp/full''], Returns (Rejected Undefined))
   \<and> checkLocalDir ready_env ''/tmp/nowhere'' [] = ([ReadDir ''/tmp/nowhere''], Returns (Rejected Undefined))
   \<and> checkLocalDir half_env ''/tmp/nowhere'' [] = ([ReadDir ''/tmp/nowhere''], Returns (Rejected Undefined))
   \<and> checkLocalDir ready_env (''/tmp/'' @ [CHR 0x00]) [] = ([], Returns (Rejected (ErrorObject TypeError)))"
  using checkLocalDir_spec [of ready_env "''/tmp/empty''" "[]"]
    checkLocalDir_spec [of ready_env "''/tmp/full''" "[]"]
    checkLocalDir_spec [of ready_env "''/tmp/nowhere''" "[]"]
    checkLocalDir_spec [of half_env "''/tmp/nowhere''" "[]"]
    checkLocalDir_spec [of ready_env "''/tmp/'' @ [CHR 0x00]" "[]"]
  by (simp add: ready_env_def half_env_def)

text \<open>
  As written for every path, the property fails at a path with a NUL byte: the rejection
  carries the TypeError of the listing and not \<^verbatim>\<open>undefined\<close>.
\<close>

theorem checkLocalDir_payload_counterexample:
  "snd (checkLocalDir ready_env (''/tmp/'' @ [CHR 0x00]) [])
     = Returns (Rejected (ErrorObject TypeError))
   \<and> snd (checkLocalDir ready_env (''/tmp/'' @ [CHR 0x00]) []) \<noteq> Returns (Rejected Undefined)"
  by (simp add: checkLocalDir_def readdir_def)

section \<open>Properties of the fatal checkers\<close>



text \<open>
  C10. In \<^verbatim>\<open>checkGcloudProject\<close> and \<^verbatim>\<open>checkGitConfig\<close> the captured streams
  are looked at only when the status is 0. When the status is anything else, null
  included, the check halts the host process with exit code 1 and does the same whatever
  the two streams are, null included: no null stream is dereferenced and nothing is
  thrown.
\<close>

theorem null_stream_not_read:
  "(status (child e ''gcloud'' [''config'', ''get-value'', ''project'']) \<noteq> Some 0 \<longrightarrow>
      snd (checkGcloudProject e h) = Exits 1
      \<and> checkGcloudProject
           (e\<lparr>child := \<lambda>c a. (child e c a)\<lparr>stdout := out, stderr := err\<rparr>\<rparr>) h
         = checkGcloudProject e h)
   \<and> (status (child e ''git'' [''config'', ''--list'']) \<noteq> Some 0 \<longrightarrow>
      snd (checkGitConfig e h) = Exits 1
      \<and> checkGitConfig
           (e\<lparr>child := \<lambda>c a. (child e c a)\<lparr>stdout := out, stderr := err\<rparr>\<rparr>) h
         = checkGitConfig e h)"
  by (simp add: checkGcloudProject_run checkGitConfig_run Let_def)

theorem null_stream_not_read_witness:
  "status (child bare_env ''gcloud'' [''config'', ''get-value'', ''project'']) = None
   \<and> stderr (child bare_env ''gcloud'' [''config'', ''get-value'', ''project'']) = None
   \<and> snd (checkGcloudProject bare_env []) = Exits 1
   \<and> status (child bare_env ''git'' [''config'', ''--list'']) = None
   \<and> stdout (child bare_env ''git'' [''config'', ''--list'']) = None
   \<and> snd (checkGitConfig bare_env []) = Exits 1"
  using null_stream_not_read [of bare_env "[]"]
  by (simp add: bare_env_def not_launched_def)

end
